theory Spec2Isabelle
  imports Complex_Main "HOL-Library.Sublist"
begin

section \<open>Nanny's Recipes: the OCR pipeline and the HTML builder\<close>

text \<open>
  A shallow embedding of \<^verbatim>\<open>ocr_pipeline.py\<close> and of the text handling of
  \<^verbatim>\<open>build_html.py\<close>. Python strings are modelled as \<^typ>\<open>string\<close>; a
  \<^typ>\<open>char\<close> stands for one code point below 256. Exceptions are values of a sum
  type (\<open>Inl\<close> the exception), the file system and the console are explicit state.
\<close>

subsection \<open>String primitives of Python used by the sources\<close>

text \<open>
  \<^verbatim>\<open>s.replace(old, new)\<close>: every non-overlapping occurrence of \<open>old\<close>, found from
  the left, is replaced. After a match the scan resumes behind it: \<open>c # cs\<close> without its
  first \<open>length old\<close> characters is \<open>drop (length old - 1) cs\<close>. Every call in the
  sources has a non-empty literal for \<open>old\<close>; for an empty \<open>old\<close> the model returns the
  string unchanged (Python would interleave \<open>new\<close>).
\<close>

fun replace_py :: "string \<Rightarrow> string \<Rightarrow> string \<Rightarrow> string" where
  "replace_py old new [] = []"
| "replace_py old new (c # cs) =
     (if old \<noteq> [] \<and> prefix old (c # cs)
      then new @ replace_py old new (drop (length old - 1) cs)
      else c # replace_py old new cs)"

text \<open>\<^verbatim>\<open>s.replace(old, new, count)\<close>: only the first \<open>count\<close> occurrences.\<close>

fun replace_count :: "string \<Rightarrow> string \<Rightarrow> nat \<Rightarrow> string \<Rightarrow> string" where
  "replace_count old new n [] = []"
| "replace_count old new n (c # cs) =
     (if n = 0 then c # cs
      else if old \<noteq> [] \<and> prefix old (c # cs)
      then new @ replace_count old new (n - 1) (drop (length old - 1) cs)
      else c # replace_count old new n cs)"

text \<open>\<^verbatim>\<open>s.count(sub)\<close>: the number of non-overlapping occurrences of a non-empty \<open>sub\<close>.\<close>

fun count_py :: "string \<Rightarrow> string \<Rightarrow> nat" where
  "count_py sub [] = 0"
| "count_py sub (c # cs) =
     (if sub \<noteq> [] \<and> prefix sub (c # cs)
      then Suc (count_py sub (drop (length sub - 1) cs))
      else count_py sub cs)"

text \<open>\<^verbatim>\<open>sub in s\<close>, \<^verbatim>\<open>s.startswith(p)\<close>, \<^verbatim>\<open>s.endswith(p)\<close>.\<close>

fun contains :: "string \<Rightarrow> string \<Rightarrow> bool" where
  "contains sub [] = (sub = [])"
| "contains sub (c # cs) = (prefix sub (c # cs) \<or> contains sub cs)"

definition startswith :: "string \<Rightarrow> string \<Rightarrow> bool" where
  "startswith s p = prefix p s"

definition endswith :: "string \<Rightarrow> string \<Rightarrow> bool" where
  "endswith s p = suffix p s"

text \<open>
  \<^verbatim>\<open>s.strip(chars)\<close>, \<^verbatim>\<open>s.lstrip(chars)\<close>: characters of the set \<open>chars\<close> are removed
  from both ends (from the left end). \<^verbatim>\<open>s.strip()\<close> removes white space; below 256 the
  white-space code points of Python are 9 to 13, 28 to 32, 133 and 160.
\<close>

definition lstrip_chars :: "string \<Rightarrow> string \<Rightarrow> string" where
  "lstrip_chars chars s = dropWhile (\<lambda>c. c \<in> set chars) s"

definition strip_chars :: "string \<Rightarrow> string \<Rightarrow> string" where
  "strip_chars chars s = rev (lstrip_chars chars (rev (lstrip_chars chars s)))"

definition whitespace :: string where
  "whitespace = map char_of [9, 10, 11, 12, 13, 28, 29, 30, 31, 32, 133, 160 :: nat]"

definition strip :: "string \<Rightarrow> string" where
  "strip s = strip_chars whitespace s"

text \<open>\<^verbatim>\<open>sep.join(xs)\<close>.\<close>

fun join :: "string \<Rightarrow> string list \<Rightarrow> string" where
  "join sep [] = []"
| "join sep [x] = x"
| "join sep (x # y # ys) = x @ sep @ join sep (y # ys)"

subsection \<open>\<^verbatim>\<open>build_html.py\<close>: escaping\<close>

definition escape_html :: "string \<Rightarrow> string" where
  "escape_html text =
     replace_py [CHR 0x0A] ''<br>''
       (replace_py [CHR 0x22] ''&quot;''
         (replace_py ''>'' ''&gt;''
           (replace_py ''<'' ''&lt;''
             (replace_py ''&'' ''&amp;'' text))))"

text \<open>
  The reading of \<^const>\<open>escape_html\<close> that the specification gives: each character of
  the input is rendered on its own, a metacharacter by its entity and a newline by a line
  break. \<open>unescape_html\<close> is the conceptual inverse and \<open>escaped_text\<close> recognises the
  strings in which every \<open>&\<close> starts one of the four entities, every \<open><\<close> starts
  \<open><br>\<close>, and no \<open>>\<close> or double quote stands on its own.
\<close>

definition escape_char :: "char \<Rightarrow> string" where
  "escape_char c =
     (if c = CHR ''&'' then ''&amp;''
      else if c = CHR ''<'' then ''&lt;''
      else if c = CHR ''>'' then ''&gt;''
      else if c = CHR 0x22 then ''&quot;''
      else if c = CHR 0x0A then ''<br>''
      else [c])"

fun unescape_html :: "string \<Rightarrow> string" where
  "unescape_html [] = []"
| "unescape_html (c # cs) =
     (if prefix ''&amp;'' (c # cs) then CHR ''&'' # unescape_html (drop 4 cs)
      else if prefix ''&lt;'' (c # cs) then CHR ''<'' # unescape_html (drop 3 cs)
      else if prefix ''&gt;'' (c # cs) then CHR ''>'' # unescape_html (drop 3 cs)
      else if prefix ''&quot;'' (c # cs) then CHR 0x22 # unescape_html (drop 5 cs)
      else if prefix ''<br>'' (c # cs) then CHR 0x0A # unescape_html (drop 3 cs)
      else c # unescape_html cs)"

fun escaped_text :: "string \<Rightarrow> bool" where
  "escaped_text [] = True"
| "escaped_text (c # cs) =
     (if c = CHR ''&'' then
        (prefix ''amp;'' cs \<and> escaped_text (drop 4 cs)) \<or>
        (prefix ''lt;'' cs \<and> escaped_text (drop 3 cs)) \<or>
        (prefix ''gt;'' cs \<and> escaped_text (drop 3 cs)) \<or>
        (prefix ''quot;'' cs \<and> escaped_text (drop 5 cs))
      else if c = CHR ''<'' then prefix ''br>'' cs \<and> escaped_text (drop 3 cs)
      else c \<noteq> CHR ''>'' \<and> c \<noteq> CHR 0x22 \<and> escaped_text cs)"

subsection \<open>\<^verbatim>\<open>build_html.py\<close>: the text of a recipe card\<close>

text \<open>\<^verbatim>\<open>s.split(sep)\<close> for a non-empty separator.\<close>

fun split_from :: "string \<Rightarrow> string \<Rightarrow> string \<Rightarrow> string list" where
  "split_from sep cur [] = [cur]"
| "split_from sep cur (c # cs) =
     (if sep \<noteq> [] \<and> prefix sep (c # cs)
      then cur # split_from sep [] (drop (length sep - 1) cs)
      else split_from sep (cur @ [c]) cs)"

definition split_py :: "string \<Rightarrow> string \<Rightarrow> string list" where
  "split_py sep s = split_from sep [] s"

text \<open>
  The three pieces of \<^verbatim>\<open>build_recipe_card\<close> that render free text: the loop over
  the ingredient lines (\<open>ingredient_item\<close> is what one iteration appends), the loop over
  the paragraphs of the method, and the notes.
\<close>

definition ingredient_item :: "string \<Rightarrow> string" where
  \<open>ingredient_item ing =
     (if startswith ing ''---'' \<and> endswith ing ''---'' then
        let section_title = strip_chars ''- '' ing
        in ''<li class="ingredient-section">'' @ section_title @ ''</li>''
      else if ing = [] then []
      else if startswith ing ''Then add:'' \<or> startswith ing ''Then add'' then
        ''<li class="ingredient-instruction">'' @ escape_html ing @ ''</li>''
      else
        let ing_html = escape_html ing;
            ing_html = replace_py ''[Handwritten:''
                         ''<span class="handwritten-note">[Handwritten:'' ing_html;
            ing_html = replace_py ''[Handwritten note:''
                         ''<span class="handwritten-note">[Note:'' ing_html;
            ing_html = (if contains ''<span class="handwritten-note">'' ing_html
                        then replace_count '']'' '']</span>'' (count_py ''<span'' ing_html) ing_html
                        else ing_html)
        in ''<li>'' @ ing_html @ ''</li>'')\<close>

definition ingredients_html :: "string list \<Rightarrow> string" where
  "ingredients_html ingredients = foldl (\<lambda>html ing. html @ ingredient_item ing) [] ingredients"

definition method_para :: "string \<Rightarrow> string" where
  \<open>method_para para0 =
     (let para = strip para0 in
      if startswith para ''---'' \<and> endswith para ''---'' then
        let section_title = strip_chars ''- '' para
        in ''<h4 class="method-subsection">'' @ escape_html section_title @ ''</h4>''
      else if startswith para ''- '' then
        let items = split_py [CHR 0x0A] para
        in foldl (\<lambda>html item. html @ ''<li>'' @ escape_html (lstrip_chars ''- '' item) @ ''</li>'')
             ''<ul class='method-list'>'' items
           @ ''</ul>''
      else if para \<noteq> [] then
        let para_html = escape_html para;
            para_html = replace_py ''[Handwritten:''
                          ''<span class="handwritten-note">[Handwritten:'' para_html;
            para_html = (if contains ''<span class="handwritten-note">'' para_html
                         then replace_count '']'' '']</span>'' (count_py ''<span'' para_html) para_html
                         else para_html)
        in ''<p>'' @ para_html @ ''</p>''
      else [])\<close>

definition method_html :: "string \<Rightarrow> string" where
  "method_html method =
     (if method \<noteq> []
      then foldl (\<lambda>html para. html @ method_para para) [] (split_py [CHR 0x0A, CHR 0x0A] method)
      else [])"

definition notes_html :: "string \<Rightarrow> string" where
  \<open>notes_html notes =
     (if notes \<noteq> []
      then ''<div class="recipe-notes"><strong>Notes:</strong> '' @ escape_html notes @ ''</div>''
      else [])\<close>

section \<open>Properties\<close>

subsection \<open>Escaping\<close>

lemma replace_py_single:
  "replace_py [a] new s = concat (map (\<lambda>x. if x = a then new else [x]) s)"
  by (induction s) auto

lemma replace_py_single_chars:
  "replace_py [a] new s = concat (map (\<lambda>c. replace_py [a] new [c]) s)"
  by (induction s) auto

lemma replace_py_single_append:
  "replace_py [a] new (xs @ ys) = replace_py [a] new xs @ replace_py [a] new ys"
  by (simp add: replace_py_single)

lemma replace_py_single_concat:
  "replace_py [a] new (concat xss) = concat (map (replace_py [a] new) xss)"
  by (induction xss) (simp_all add: replace_py_single_append)

lemma escape_html_single: "escape_html [c] = escape_char c"
  by (simp add: escape_html_def escape_char_def)

lemma escape_html_concat_map: "escape_html s = concat (map escape_char s)"
proof -
  have "escape_html s = concat (map (\<lambda>c. escape_html [c]) s)"
    unfolding escape_html_def
    by (subst replace_py_single_chars[of "CHR ''&''" _ s])
       (simp only: replace_py_single_concat map_map comp_def)
  then show ?thesis by (simp add: escape_html_single)
qed

lemma escape_html_Nil: "escape_html [] = []"
  by (simp add: escape_html_def)

lemma escape_html_Cons: "escape_html (c # cs) = escape_char c @ escape_html cs"
  by (simp add: escape_html_concat_map)

lemma unescape_escape_html: "unescape_html (escape_html s) = s"
  by (induction s) (simp_all add: escape_html_Cons escape_html_Nil escape_char_def)

lemma escaped_text_escape_html: "escaped_text (escape_html s)"
  by (induction s) (simp_all add: escape_html_Cons escape_html_Nil escape_char_def)

text \<open>
  Claim C9. \<^const>\<open>escape_html\<close> replaces the ampersand first, then \<open><\<close>, \<open>>\<close>, the
  double quote and last the newline, and no replacement touches the output of an earlier
  one: the result is the concatenation of the renderings of the single characters.
  Unescaping recovers the input, so the function is injective, and in the output every
  \<open>&\<close> starts an entity, every \<open><\<close> starts a \<open><br>\<close> tag, and no other \<open>>\<close> and no
  double quote occurs.
\<close>

theorem escape_html_order_injective_safe:
  "escape_html s = concat (map escape_char s)
   \<and> unescape_html (escape_html s) = s
   \<and> ((escape_html s = escape_html t) = (s = t))
   \<and> escaped_text (escape_html s)"
proof -
  have "(escape_html s = escape_html t) = (s = t)"
    by (metis unescape_escape_html)
  then show ?thesis
    by (simp add: escape_html_concat_map[symmetric] unescape_escape_html
        escaped_text_escape_html)
qed

theorem escape_html_order_injective_safe_witness:
  "escape_html (''Fish & <Chips> '' @ [CHR 0x22, CHR 0x0A]) = ''Fish &amp; &lt;Chips&gt; &quot;<br>''
   \<and> unescape_html ''Fish &amp; &lt;Chips&gt; &quot;<br>'' = ''Fish & <Chips> '' @ [CHR 0x22, CHR 0x0A]
   \<and> escaped_text ''Fish &amp; &lt;Chips&gt; &quot;<br>''"
  using escape_html_order_injective_safe
    [of "''Fish & <Chips> '' @ [CHR 0x22, CHR 0x0A]" "[]"]
  by (simp add: escape_char_def)

subsection \<open>Section headers of a recipe card\<close>

lemma strip_chars_dashes:
  assumes "x \<noteq> []" "hd x \<notin> set ''- ''" "last x \<notin> set ''- ''"
  shows "strip_chars ''- '' (''---'' @ x @ ''---'') = x"
proof -
  obtain a xs where x: "x = a # xs" using assms(1) by (cases x) auto
  obtain ys b where x': "x = ys @ [b]" using assms(1) by (cases x rule: rev_cases) auto
  have a: "a \<noteq> CHR ''-''" "a \<noteq> CHR '' ''" using assms(2) x by auto
  have b: "b \<noteq> CHR ''-''" "b \<noteq> CHR '' ''" using assms(3) x' by auto
  have 1: "lstrip_chars ''- '' (''---'' @ x @ ''---'') = x @ ''---''"
    using a by (simp add: lstrip_chars_def x)
  have 2: "lstrip_chars ''- '' (rev (x @ ''---'')) = rev x"
    using b by (simp add: lstrip_chars_def x')
  show ?thesis unfolding strip_chars_def 1 2 by simp
qed

text \<open>
  An ingredient line \<open>---X---\<close> is rendered with \<open>X\<close> as it stands, whatever
  characters it holds: the ingredient loop does not call \<^const>\<open>escape_html\<close> on a
  section title.
\<close>

lemma ingredient_section_header_raw:
  assumes "x \<noteq> []" "hd x \<notin> set ''- ''" "last x \<notin> set ''- ''"
  shows \<open>ingredients_html [''---'' @ x @ ''---'']
           = ''<li class="ingredient-section">'' @ x @ ''</li>''\<close>
proof -
  let ?ing = "''---'' @ x @ ''---''"
  have s: "startswith ?ing ''---''" by (simp add: startswith_def)
  have e: "endswith ?ing ''---''"
    unfolding endswith_def suffix_def by (rule exI[of _ "''---'' @ x"]) simp
  have \<open>ingredient_item ?ing = ''<li class="ingredient-section">'' @ x @ ''</li>''\<close>
    unfolding ingredient_item_def using s e strip_chars_dashes[OF assms]
    by (simp only: simp_thms if_True Let_def)
  then show ?thesis
    by (simp only: ingredients_html_def foldl.simps append_Nil)
qed

text \<open>
  Claim C8, at the ingredient line \<open>---Salt & <b>Pepper</b>---\<close>. Every piece of free
  text of a card should pass through \<^const>\<open>escape_html\<close>, and the header of an
  ingredient subsection should hold its title with \<open>&\<close>, \<open><\<close>, \<open>>\<close> and the double
  quote escaped. The ingredient loop inserts the title unescaped; the loop over the method
  paragraphs escapes the same title.
\<close>

theorem ingredient_section_header_not_escaped:
  \<open>ingredients_html [''---Salt & <b>Pepper</b>---'']
     = ''<li class="ingredient-section">Salt & <b>Pepper</b></li>''
   \<and> method_html ''---Salt & <b>Pepper</b>---''
     = ''<h4 class="method-subsection">Salt &amp; &lt;b&gt;Pepper&lt;/b&gt;</h4>''\<close>
  by code_simp

end
